theory Spec2Isabelle
  imports Main "HOL-Library.Sublist"
begin

section \<open>JavaScript values used by \<open>src/index.js\<close>\<close>

text \<open>A call or an evaluation either gives a value or throws one.\<close>

datatype ('a, 'v) outcome = Normal 'a | Throw 'v

text \<open>
  A number is carried by the text \<open>String(n)\<close> yields (\<open>10000\<close>, \<open>-5\<close>, \<open>0.5\<close>,
  \<open>1e+21\<close>, \<open>NaN\<close>, \<open>-Infinity\<close>), which determines it up to the sign of zero.
\<close>

datatype jsnum = Num string

text \<open>
  Values. \<open>Blob\<close> and \<open>File\<close> are what the two constructors of those names make;
  \<open>Error msg\<close> is \<open>new Error(msg)\<close>; \<open>Function src\<close> is a function, carried by its
  source text; \<open>Symbol d\<close> is a symbol with description \<open>d\<close>. \<open>Object b c\<close> is any other
  object that is not callable: \<open>b\<close> says whether it is an instance of \<open>Blob\<close>, and \<open>c\<close>
  is what converting it to a string does (an array \<open>[1, 2]\<close> gives \<open>1,2\<close>, an event
  gives \<open>[object ProgressEvent]\<close>, an object made by \<open>Object.create(null)\<close> throws).
  Thenables are not modelled: a \<open>FileReader\<close> result is a string, an \<open>ArrayBuffer\<close> or
  \<open>null\<close>.
\<close>

datatype jsval =
    Undefined
  | Null
  | Boolean bool
  | Number jsnum
  | BigInt string
  | Str string
  | Symbol string
  | Blob
  | File
  | Error string
  | Function string
  | Object bool "(string, jsval) outcome"

type_synonym 'a completion = "('a, jsval) outcome"

fun typeof :: "jsval \<Rightarrow> string" where
  "typeof Undefined = ''undefined''"
| "typeof Null = ''object''"
| "typeof (Boolean b) = ''boolean''"
| "typeof (Number n) = ''number''"
| "typeof (BigInt s) = ''bigint''"
| "typeof (Str s) = ''string''"
| "typeof (Symbol d) = ''symbol''"
| "typeof Blob = ''object''"
| "typeof File = ''object''"
| "typeof (Error m) = ''object''"
| "typeof (Function f) = ''function''"
| "typeof (Object b c) = ''object''"

text \<open>\<open>v instanceof Blob\<close>\<close>

fun instanceof_Blob :: "jsval \<Rightarrow> bool" where
  "instanceof_Blob Blob = True"
| "instanceof_Blob File = True"
| "instanceof_Blob (Object b c) = b"
| "instanceof_Blob v = False"

text \<open>The condition of \<open>if (v)\<close>: ECMAScript's ToBoolean.\<close>

fun truthy :: "jsval \<Rightarrow> bool" where
  "truthy Undefined = False"
| "truthy Null = False"
| "truthy (Boolean b) = b"
| "truthy (Number (Num s)) = (s \<noteq> ''0'' \<and> s \<noteq> ''NaN'')"
| "truthy (BigInt s) = (s \<noteq> ''0'')"
| "truthy (Str s) = (s \<noteq> [])"
| "truthy v = True"

fun num_to_string :: "jsnum \<Rightarrow> string" where
  "num_to_string (Num s) = s"

text \<open>
  The \<open>TypeError\<close> the engine throws when a symbol is converted to a string, and the one
  it throws when the parameter pattern of line 23 meets \<open>null\<close>. The messages are
  V8's; other engines word them differently.
\<close>

definition symbol_to_string_error :: jsval where
  "symbol_to_string_error =
     Object False (Normal ''TypeError: Cannot convert a Symbol value to a string'')"

definition destructure_null_error :: jsval where
  "destructure_null_error =
     Object False (Normal (''TypeError: Cannot destructure property 'timeoutMs' of ''
                           @ '''object null' as it is null.''))"

text \<open>What a template literal \<open>`${v}`\<close> does with \<open>v\<close>: ECMAScript's ToString.\<close>

fun ToString :: "jsval \<Rightarrow> string completion" where
  "ToString Undefined = Normal ''undefined''"
| "ToString Null = Normal ''null''"
| "ToString (Boolean b) = Normal (if b then ''true'' else ''false'')"
| "ToString (Number n) = Normal (num_to_string n)"
| "ToString (BigInt s) = Normal s"
| "ToString (Str s) = Normal s"
| "ToString (Symbol d) = Throw symbol_to_string_error"
| "ToString Blob = Normal ''[object Blob]''"
| "ToString File = Normal ''[object File]''"
| "ToString (Error m) = Normal (if m = [] then ''Error'' else ''Error: '' @ m)"
| "ToString (Function src) = Normal src"
| "ToString (Object b c) = c"

section \<open>The promise, the effects\<close>

datatype promise_state = Pending | Fulfilled jsval | Rejected jsval

text \<open>The object literal \<open>{ result, error }\<close> handed to \<open>onComplete\<close>.\<close>

record payload =
  result :: jsval
  error :: jsval

text \<open>
  Every call the wrapper makes, in the order it makes them. \<open>Call_resolve\<close> and
  \<open>Call_reject\<close> are the calls of the promise's two functions, whether or not the
  promise is still pending.
\<close>

datatype effect =
    Call_timeoutFunction jsval jsval
  | Set_onload
  | Set_onerror
  | Call_method string jsval
  | Call_stopWaitingForTimeout
  | Call_abort
  | Call_onFinishAfterTimeout payload
  | Call_resolve jsval
  | Call_reject jsval

text \<open>
  The variables of one call of \<open>reliableFileReader\<close>: the flag of line 60, the promise
  of line 29, and the calls made so far.
\<close>

record request_state =
  hasTimedOut :: bool
  promise :: promise_state
  trace :: "effect list"

text \<open>
  What the host gives the code. \<open>src/index.js\<close> uses the identifier \<open>fileReader\<close> on
  lines 66 and 70 to 72 and declares it nowhere, so what it evaluates to is the host's
  affair: \<open>fileReader\<close> is \<open>Throw e\<close>, with \<open>e\<close> the \<open>ReferenceError\<close>, where the global
  scope has no such name (the module run as it is), and \<open>Normal r\<close> where the page
  binds the name to a reader \<open>r\<close>. \<open>FileReader_prototype\<close> is what evaluating
  \<open>FileReader.prototype[method]\<close> does: a value, or the exception of an accessor.
  \<open>read_behaviour\<close> and \<open>abort_behaviour\<close> are what \<open>fileReader[method](blob)\<close> and
  \<open>fileReader.abort()\<close> do on a bound reader, and \<open>onFinishAfterTimeout_behaviour\<close> is
  what the caller's callback does with its argument. The timeout function is taken to
  return a cancellation function, and that one to return, as line 15 asks of them.
\<close>

record env =
  FileReader_prototype :: "string \<Rightarrow> jsval completion"
  fileReader :: "jsval completion"
  read_behaviour :: "jsval completion"
  abort_behaviour :: "jsval completion"
  onFinishAfterTimeout_behaviour :: "payload \<Rightarrow> jsval completion"

text \<open>The promise's \<open>resolve\<close> and \<open>reject\<close>: the first call settles, later calls do nothing.\<close>

definition resolve :: "jsval \<Rightarrow> request_state \<Rightarrow> request_state" where
  "resolve v st =
     st\<lparr>promise := (if promise st = Pending then Fulfilled v else promise st),
        trace := trace st @ [Call_resolve v]\<rparr>"

definition reject :: "jsval \<Rightarrow> request_state \<Rightarrow> request_state" where
  "reject e st =
     st\<lparr>promise := (if promise st = Pending then Rejected e else promise st),
        trace := trace st @ [Call_reject e]\<rparr>"

section \<open>The callbacks of \<open>reliableFileReader\<close>\<close>

text \<open>
  The message of line 63. The callback exists only past line 41, so \<open>timeoutMs\<close> is a
  number there.
\<close>

definition timeout_message :: "string \<Rightarrow> jsnum \<Rightarrow> string" where
  "timeout_message method ms =
     ''FileReader '' @ method @ '' timed out after '' @ num_to_string ms @ ''ms''"

text \<open>
  Line 66 as a whole: evaluating \<open>fileReader\<close> throws when the name is unbound;
  otherwise \<open>abort\<close> is called and returns or throws.
\<close>

definition abort_attempt :: "env \<Rightarrow> jsval completion" where
  "abort_attempt E =
     (case fileReader E of
        Throw e \<Rightarrow> Throw e
      | Normal r \<Rightarrow> (case abort_behaviour E of
                        Throw e \<Rightarrow> Throw e
                      | Normal v \<Rightarrow> Normal Undefined))"

text \<open>Lines 61 to 67: the callback handed to \<open>timeoutFunction\<close>.\<close>

definition timeout_callback ::
  "env \<Rightarrow> string \<Rightarrow> jsnum \<Rightarrow> request_state \<Rightarrow> jsval completion \<times> request_state" where
  "timeout_callback E method ms st =
     (let st1 = st\<lparr>hasTimedOut := True\<rparr>;
          st2 = reject (Error (timeout_message method ms)) st1
      in (abort_attempt E,
          case fileReader E of
            Throw e \<Rightarrow> st2
          | Normal r \<Rightarrow> st2\<lparr>trace := trace st2 @ [Call_abort]\<rparr>))"

text \<open>Lines 75 to 92.\<close>

definition onComplete :: "env \<Rightarrow> payload \<Rightarrow> request_state \<Rightarrow> jsval completion \<times> request_state" where
  "onComplete E p st =
     (if hasTimedOut st then
        (onFinishAfterTimeout_behaviour E p,
         st\<lparr>trace := trace st @ [Call_onFinishAfterTimeout p]\<rparr>)
      else
        (let st1 = st\<lparr>trace := trace st @ [Call_stopWaitingForTimeout]\<rparr>
         in if truthy (error p) then (Normal Undefined, reject (error p) st1)
            else (Normal Undefined, resolve (result p) st1)))"

text \<open>
  Line 70. The handler sits on the reader, so it runs only where \<open>fileReader\<close> is bound;
  the argument is \<open>fileReader.result\<close> as the handler reads it.
\<close>

definition onload :: "env \<Rightarrow> jsval \<Rightarrow> request_state \<Rightarrow> jsval completion \<times> request_state" where
  "onload E r st = onComplete E \<lparr>result = r, error = Undefined\<rparr> st"

text \<open>Line 71.\<close>

definition onerror :: "env \<Rightarrow> jsval \<Rightarrow> request_state \<Rightarrow> jsval completion \<times> request_state" where
  "onerror E e st = onComplete E \<lparr>result = Undefined, error = e\<rparr> st"

section \<open>\<open>reliableFileReader\<close>\<close>

text \<open>The three properties line 23 reads off the options; an absent one is \<open>undefined\<close>.\<close>

record options =
  timeoutMs :: jsval
  onFinishAfterTimeout :: jsval
  timeoutFunction :: jsval

text \<open>
  The third argument: \<open>null\<close>, which the parameter pattern cannot take apart, or anything
  else, by the three properties it shows. Left out, or a primitive, it shows none.
\<close>

datatype options_arg = Null_options | Options options

text \<open>A destructuring default applies when the property is \<open>undefined\<close>.\<close>

definition default_to :: "jsval \<Rightarrow> jsval \<Rightarrow> jsval" where
  "default_to d v = (if v = Undefined then d else v)"

definition simpleTimeout_value :: jsval where
  "simpleTimeout_value = Function ''function simpleTimeout(callback, timeoutMs) { ... }''"

definition with_defaults :: "options \<Rightarrow> options" where
  "with_defaults opts =
     \<lparr>timeoutMs = default_to (Number (Num ''30000'')) (timeoutMs opts),
      onFinishAfterTimeout = default_to (Function ''() => {}'') (onFinishAfterTimeout opts),
      timeoutFunction = default_to simpleTimeout_value (timeoutFunction opts)\<rparr>"

definition no_options :: options where
  "no_options = \<lparr>timeoutMs = Undefined, onFinishAfterTimeout = Undefined,
                  timeoutFunction = Undefined\<rparr>"

text \<open>
  The variables as the executor finds them: nothing called yet, the promise pending.
  \<open>hasTimedOut\<close> is declared on line 60 only; before that it counts as false.
\<close>

definition fresh :: request_state where
  "fresh = \<lparr>hasTimedOut = False, promise = Pending, trace = []\<rparr>"

text \<open>
  What \<open>throw new Error(`Invalid ... passed to FileReader: ${v}`)\<close> throws: the error,
  or what converting \<open>v\<close> to a string throws.
\<close>

definition invalid :: "string \<Rightarrow> jsval \<Rightarrow> jsval" where
  "invalid what v =
     (case ToString v of
        Throw e \<Rightarrow> e
      | Normal s \<Rightarrow> Error (''Invalid '' @ what @ '' passed to FileReader: '' @ s))"

text \<open>Lines 30 to 57, on the options after their defaults: the five checks in their order.\<close>

definition validate :: "env \<Rightarrow> string \<Rightarrow> jsval \<Rightarrow> options \<Rightarrow> jsval completion" where
  "validate E method blob opts =
     (if \<not> instanceof_Blob blob then Throw (invalid ''blob'' blob)
      else (case FileReader_prototype E method of
              Throw e \<Rightarrow> Throw e
            | Normal f \<Rightarrow>
                if typeof f \<noteq> ''function'' then Throw (invalid ''method'' (Str method))
                else if typeof (timeoutMs opts) \<noteq> ''number'' then
                  Throw (invalid ''timeoutMs'' (timeoutMs opts))
                else if typeof (onFinishAfterTimeout opts) \<noteq> ''function'' then
                  Throw (invalid ''onFinishAfterTimeout'' (onFinishAfterTimeout opts))
                else if typeof (timeoutFunction opts) \<noteq> ''function'' then
                  Throw (invalid ''timeoutFunction'' (timeoutFunction opts))
                else Normal Undefined))"

text \<open>
  Lines 29 to 72, the body of the function handed to \<open>new Promise\<close>. A \<open>throw\<close> ends the
  body where it stands. Past the checks the timeout function is called (line 61); then
  line 70 evaluates \<open>fileReader\<close>, and where that throws the body ends with the timer
  set and nothing else done; where it is bound, the two handlers are installed and the
  read is begun. The callback and the handlers run later, as signals.
\<close>

definition executor ::
  "env \<Rightarrow> string \<Rightarrow> jsval \<Rightarrow> options \<Rightarrow> jsval completion \<times> request_state" where
  "executor E method blob opts =
     (case validate E method blob opts of
        Throw e \<Rightarrow> (Throw e, fresh)
      | Normal v \<Rightarrow>
          (let st1 = fresh\<lparr>trace := [Call_timeoutFunction (timeoutFunction opts)
                                                             (timeoutMs opts)]\<rparr>
           in case fileReader E of
                Throw e \<Rightarrow> (Throw e, st1)
              | Normal r \<Rightarrow>
                  (let st2 = st1\<lparr>trace := trace st1 @ [Set_onload, Set_onerror,
                                                           Call_method method blob]\<rparr>
                   in case read_behaviour E of
                        Throw e \<Rightarrow> (Throw e, st2)
                      | Normal u \<Rightarrow> (Normal Undefined, st2))))"

text \<open>
  \<open>new Promise(executor)\<close> runs the executor at once; what the executor throws
  rejects the promise, and the constructor returns the promise.
\<close>

definition new_Promise :: "jsval completion \<times> request_state \<Rightarrow> request_state" where
  "new_Promise r =
     (case fst r of
        Throw e \<Rightarrow> (snd r)\<lparr>promise := (if promise (snd r) = Pending then Rejected e
                                          else promise (snd r))\<rparr>
      | Normal v \<Rightarrow> snd r)"

text \<open>
  Lines 20 to 94: what the call gives its caller. Taking \<open>null\<close> apart on line 23
  throws before the promise is made.
\<close>

definition reliableFileReader ::
  "env \<Rightarrow> string \<Rightarrow> jsval \<Rightarrow> options_arg \<Rightarrow> request_state completion" where
  "reliableFileReader E method blob arg =
     (case arg of
        Null_options \<Rightarrow> Throw destructure_null_error
      | Options opts \<Rightarrow> Normal (new_Promise (executor E method blob (with_defaults opts))))"

section \<open>Signals\<close>

text \<open>
  What can reach a request after the call returned: the timeout function runs its
  callback, or the reader fires \<open>onload\<close> (with \<open>fileReader.result\<close> as it is then) or
  \<open>onerror\<close> (with its argument). Each handler runs to its end before the next signal.
\<close>

datatype signal = Timeout | Load jsval | Failure jsval

text \<open>A signal reaches the request through what the executor registered, and not otherwise.\<close>

fun is_timer_call :: "effect \<Rightarrow> bool" where
  "is_timer_call (Call_timeoutFunction f ms) = True"
| "is_timer_call c = False"

fun reaches :: "request_state \<Rightarrow> signal \<Rightarrow> bool" where
  "reaches st Timeout = list_ex is_timer_call (trace st)"
| "reaches st (Load r) = (Set_onload \<in> set (trace st))"
| "reaches st (Failure e) = (Set_onerror \<in> set (trace st))"

fun handle ::
  "env \<Rightarrow> string \<Rightarrow> jsnum \<Rightarrow> signal \<Rightarrow> request_state \<Rightarrow> jsval completion \<times> request_state" where
  "handle E method ms Timeout st = timeout_callback E method ms st"
| "handle E method ms (Load r) st = onload E r st"
| "handle E method ms (Failure e) st = onerror E e st"

definition step ::
  "env \<Rightarrow> string \<Rightarrow> jsnum \<Rightarrow> signal \<Rightarrow> request_state \<Rightarrow> jsval completion \<times> request_state" where
  "step E method ms s st =
     (if reaches st s then handle E method ms s st else (Normal Undefined, st))"

text \<open>A handler's exception goes to the host, and the next signal is handled all the same.\<close>

fun run :: "env \<Rightarrow> string \<Rightarrow> jsnum \<Rightarrow> signal list \<Rightarrow> request_state \<Rightarrow> request_state" where
  "run E method ms [] st = st"
| "run E method ms (s # ss) st = run E method ms ss (snd (step E method ms s st))"

text \<open>How often the cancellation function was called.\<close>

definition cancellations :: "request_state \<Rightarrow> nat" where
  "cancellations st = length (filter (\<lambda>c. c = Call_stopWaitingForTimeout) (trace st))"

text \<open>The arguments \<open>onFinishAfterTimeout\<close> was called with, in order.\<close>

fun late_argument :: "effect \<Rightarrow> payload list" where
  "late_argument (Call_onFinishAfterTimeout p) = [p]"
| "late_argument c = []"

definition late_finishes :: "request_state \<Rightarrow> payload list" where
  "late_finishes st = concat (map late_argument (trace st))"

text \<open>What a completion hands to \<open>onComplete\<close> (lines 70 and 71).\<close>

fun notification :: "signal \<Rightarrow> payload list" where
  "notification Timeout = []"
| "notification (Load r) = [\<lparr>result = r, error = Undefined\<rparr>]"
| "notification (Failure e) = [\<lparr>result = Undefined, error = e\<rparr>]"

section \<open>The host's timers and \<open>simpleTimeout\<close>\<close>

text \<open>
  \<open>setTimeout\<close> and \<open>clearTimeout\<close> of the host: the timers that are waiting, each under
  the id it was given, and the next id. Ids come from a counter, so none is handed out
  twice. \<open>clearTimeout\<close> of an id that is not waiting does nothing.
\<close>

record 'cb scheduler =
  next_id :: nat
  waiting :: "(nat \<times> 'cb \<times> jsval) list"

definition setTimeout :: "'cb \<Rightarrow> jsval \<Rightarrow> 'cb scheduler \<Rightarrow> nat \<times> 'cb scheduler" where
  "setTimeout callback ms s =
     (next_id s,
      s\<lparr>next_id := Suc (next_id s), waiting := waiting s @ [(next_id s, callback, ms)]\<rparr>)"

definition clearTimeout :: "nat \<Rightarrow> 'cb scheduler \<Rightarrow> 'cb scheduler" where
  "clearTimeout i s = s\<lparr>waiting := filter (\<lambda>t. fst t \<noteq> i) (waiting s)\<rparr>"

text \<open>The timer with id \<open>i\<close> elapses: it stops waiting, and its callback is to be run.\<close>

definition fire :: "nat \<Rightarrow> 'cb scheduler \<Rightarrow> 'cb option \<times> 'cb scheduler" where
  "fire i s =
     (map_option fst (map_of (waiting s) i),
      s\<lparr>waiting := filter (\<lambda>t. fst t \<noteq> i) (waiting s)\<rparr>)"

text \<open>Lines 107 to 109.\<close>

definition stopWaiting :: "nat \<Rightarrow> 'cb scheduler \<Rightarrow> 'cb scheduler" where
  "stopWaiting timeoutId s = clearTimeout timeoutId s"

text \<open>Lines 103 to 110: the cancellation function and the scheduler with the timer set.\<close>

definition simpleTimeout ::
  "'cb \<Rightarrow> jsval \<Rightarrow> 'cb scheduler \<Rightarrow> ('cb scheduler \<Rightarrow> 'cb scheduler) \<times> 'cb scheduler" where
  "simpleTimeout callback ms s =
     (let (timeoutId, s') = setTimeout callback ms s in (stopWaiting timeoutId, s'))"

section \<open>Two hosts and two requests, for the examples\<close>

text \<open>
  \<open>FileReader.prototype\<close> in a browser: the functions it has or inherits, its
  constants, and its accessors, which throw when read off the prototype itself.
\<close>

definition illegal_invocation :: jsval where
  "illegal_invocation = Object False (Normal ''TypeError: Illegal invocation'')"

definition browser_prototype :: "string \<Rightarrow> jsval completion" where
  "browser_prototype name =
     (if name \<in> set [''readAsArrayBuffer'', ''readAsBinaryString'', ''readAsDataURL'',
                      ''readAsText'', ''abort'', ''constructor'', ''addEventListener'',
                      ''removeEventListener'', ''dispatchEvent'', ''hasOwnProperty'',
                      ''isPrototypeOf'', ''propertyIsEnumerable'', ''toLocaleString'',
                      ''toString'', ''valueOf'']
      then Normal (Function (''function '' @ name @ ''() { [native code] }''))
      else if name \<in> set [''readyState'', ''result'', ''error'', ''onloadstart'',
                           ''onprogress'', ''onload'', ''onabort'', ''onerror'', ''onloadend'']
      then Throw illegal_invocation
      else if name = ''EMPTY'' then Normal (Number (Num ''0''))
      else if name = ''LOADING'' then Normal (Number (Num ''1''))
      else if name = ''DONE'' then Normal (Number (Num ''2''))
      else Normal Undefined)"

text \<open>The \<open>ReferenceError\<close> for the undeclared name; the message is V8's.\<close>

definition not_defined :: jsval where
  "not_defined = Object False (Normal ''ReferenceError: fileReader is not defined'')"

text \<open>A browser running the module as it is: nothing binds \<open>fileReader\<close>.\<close>

definition browser :: env where
  "browser = \<lparr>FileReader_prototype = browser_prototype,
               fileReader = Throw not_defined,
               read_behaviour = Normal Undefined,
               abort_behaviour = Normal Undefined,
               onFinishAfterTimeout_behaviour = (\<lambda>p. Normal Undefined)\<rparr>"

text \<open>
  The same browser on a page whose own script has put a reader into the global scope
  under the name \<open>fileReader\<close>.
\<close>

definition page_with_reader :: env where
  "page_with_reader = browser\<lparr>fileReader := Normal (Object False (Normal ''[object FileReader]''))\<rparr>"

text \<open>That page, with a reader whose \<open>abort()\<close> throws.\<close>

definition failing_abort :: env where
  "failing_abort = page_with_reader\<lparr>abort_behaviour := Throw (Error ''abort failed'')\<rparr>"

definition ten_seconds :: options where
  "ten_seconds = no_options\<lparr>timeoutMs := Number (Num ''10000'')\<rparr>"

definition progress_event :: jsval where
  "progress_event = Object False (Normal ''[object ProgressEvent]'')"

text \<open>
  What \<open>reliableFileReader('readAsText', blob, { timeoutMs: 10000 })\<close> leaves behind on
  the page with the reader: the timer is set, both handlers are installed, the read
  has begun.
\<close>

definition example_request :: request_state where
  "example_request =
     \<lparr>hasTimedOut = False, promise = Pending,
      trace = [Call_timeoutFunction simpleTimeout_value (Number (Num ''10000'')),
               Set_onload, Set_onerror, Call_method ''readAsText'' Blob]\<rparr>"

text \<open>
  What the same call leaves behind in the browser as it is: the timer is set, and the
  promise is rejected with the \<open>ReferenceError\<close> of line 70.
\<close>

definition shipped_request :: request_state where
  "shipped_request =
     \<lparr>hasTimedOut = False, promise = Rejected not_defined,
      trace = [Call_timeoutFunction simpleTimeout_value (Number (Num ''10000''))]\<rparr>"

text \<open>A host with no timer waiting.\<close>

definition idle :: "string scheduler" where
  "idle = \<lparr>next_id = 1, waiting = []\<rparr>"

text \<open>The calls a handler can make; the others are made by the executor only.\<close>

fun handler_call :: "effect \<Rightarrow> bool" where
  "handler_call Call_stopWaitingForTimeout = True"
| "handler_call Call_abort = True"
| "handler_call (Call_onFinishAfterTimeout p) = True"
| "handler_call (Call_resolve v) = True"
| "handler_call (Call_reject e) = True"
| "handler_call c = False"

text \<open>
  The call returned a promise that is already rejected with \<open>e\<close>, and nothing was
  started: no timer, no handler, no read.
\<close>

definition rejected_at_once :: "jsval \<Rightarrow> request_state completion" where
  "rejected_at_once e =
     Normal \<lparr>hasTimedOut = False, promise = Rejected e, trace = []\<rparr>"

section \<open>Facts shared by the properties\<close>

lemmas handler_defs = timeout_callback_def abort_attempt_def onComplete_def onload_def
  onerror_def resolve_def reject_def Let_def

lemmas call_defs = reliableFileReader_def new_Promise_def executor_def validate_def
  invalid_def with_defaults_def default_to_def fresh_def Let_def

lemmas example_defs = browser_def page_with_reader_def failing_abort_def browser_prototype_def
  ten_seconds_def no_options_def example_request_def shipped_request_def
  simpleTimeout_value_def

lemma example_request_returned:
  "reliableFileReader page_with_reader ''readAsText'' Blob (Options ten_seconds) =
     Normal example_request"
  by (simp add: call_defs example_defs)

lemma shipped_request_returned:
  "reliableFileReader browser ''readAsText'' Blob (Options ten_seconds) = Normal shipped_request"
  by (simp add: call_defs example_defs)

lemma example_timeout_message:
  "timeout_message ''readAsText'' (Num ''10000'') =
     ''FileReader readAsText timed out after 10000ms''"
  by (simp add: timeout_message_def)

lemma promise_step_settled:
  "promise st \<noteq> Pending \<Longrightarrow> promise (snd (step E m n s st)) = promise st"
  by (cases s) (auto simp: step_def handler_defs split: outcome.splits)

lemma promise_run_settled:
  "promise st \<noteq> Pending \<Longrightarrow> promise (run E m n sigs st) = promise st"
proof (induction sigs arbitrary: st)
  case Nil
  then show ?case by simp
next
  case (Cons s sigs)
  from Cons.prems have "promise (snd (step E m n s st)) = promise st"
    by (rule promise_step_settled)
  with Cons show ?case by simp
qed

lemma step_trace:
  "\<exists>added. trace (snd (step E m n s st)) = trace st @ added \<and> list_all handler_call added"
  by (cases s) (auto simp: step_def handler_defs split: outcome.splits)

lemma reaches_append:
  "list_all handler_call added \<Longrightarrow> trace st' = trace st @ added \<Longrightarrow> reaches st' s = reaches st s"
proof -
  assume h: "list_all handler_call added" and t: "trace st' = trace st @ added"
  from h have "\<not> list_ex is_timer_call added" "Set_onload \<notin> set added" "Set_onerror \<notin> set added"
    by (induction added) (auto elim: handler_call.elims)
  with t show ?thesis by (cases s) simp_all
qed

lemma reaches_step: "reaches (snd (step E m n s st)) s' = reaches st s'"
  using step_trace [of E m n s st] reaches_append by blast

lemma hasTimedOut_step:
  "hasTimedOut (snd (step E m n s st)) = (hasTimedOut st \<or> (s = Timeout \<and> reaches st s))"
  by (cases s) (auto simp: step_def handler_defs split: outcome.splits)

lemma cancellations_step:
  "cancellations (snd (step E m n s st)) =
     cancellations st + (if hasTimedOut st \<or> s = Timeout \<or> \<not> reaches st s then 0 else 1)"
  by (cases s) (auto simp: step_def handler_defs cancellations_def split: outcome.splits)

lemma filter_reaches_step:
  "filter (reaches (snd (step E m n s st))) sigs = filter (reaches st) sigs"
proof -
  have "reaches (snd (step E m n s st)) = reaches st"
    by (rule ext) (rule reaches_step)
  then show ?thesis by simp
qed

lemma cancellations_run:
  "cancellations (run E m n sigs st) =
     cancellations st +
     (if hasTimedOut st then 0
      else length (takeWhile (\<lambda>s. s \<noteq> Timeout) (filter (reaches st) sigs)))"
proof (induction sigs arbitrary: st)
  case Nil
  then show ?case by simp
next
  case (Cons s sigs)
  show ?case
    by (simp add: Cons.IH cancellations_step hasTimedOut_step filter_reaches_step)
qed

lemma late_finishes_step:
  "hasTimedOut st \<Longrightarrow>
     late_finishes (snd (step E m n s st)) =
       late_finishes st @ (if reaches st s then notification s else [])"
  by (cases s) (auto simp: step_def handler_defs late_finishes_def split: outcome.splits)

lemma late_finishes_run:
  "hasTimedOut st \<Longrightarrow>
     late_finishes (run E m n sigs st) =
       late_finishes st @ concat (map notification (filter (reaches st) sigs))"
proof (induction sigs arbitrary: st)
  case Nil
  then show ?case by simp
next
  case (Cons s sigs)
  from Cons.prems have "hasTimedOut (snd (step E m n s st))"
    by (simp add: hasTimedOut_step)
  then have "late_finishes (run E m n sigs (snd (step E m n s st))) =
      late_finishes (snd (step E m n s st))
      @ concat (map notification (filter (reaches st) sigs))"
    using Cons.IH by (simp add: filter_reaches_step)
  with Cons.prems show ?case
    by (simp add: late_finishes_step)
qed

lemma validate_thrown_rejects:
  "validate E method blob (with_defaults opts) = Throw e \<Longrightarrow>
     reliableFileReader E method blob (Options opts) = rejected_at_once e"
  by (simp add: reliableFileReader_def new_Promise_def executor_def rejected_at_once_def
      fresh_def)

lemma typeof_timeoutMs_default:
  "typeof (timeoutMs (with_defaults opts)) \<noteq> ''number'' \<Longrightarrow>
     timeoutMs (with_defaults opts) = timeoutMs opts \<and> timeoutMs opts \<noteq> Undefined"
  by (cases "timeoutMs opts = Undefined") (simp_all add: with_defaults_def default_to_def)

lemma typeof_onFinishAfterTimeout_default:
  "typeof (onFinishAfterTimeout (with_defaults opts)) \<noteq> ''function'' \<Longrightarrow>
     onFinishAfterTimeout (with_defaults opts) = onFinishAfterTimeout opts
     \<and> onFinishAfterTimeout opts \<noteq> Undefined"
  by (cases "onFinishAfterTimeout opts = Undefined")
     (simp_all add: with_defaults_def default_to_def)

lemma typeof_timeoutFunction_default:
  "typeof (timeoutFunction (with_defaults opts)) \<noteq> ''function'' \<Longrightarrow>
     timeoutFunction (with_defaults opts) = timeoutFunction opts
     \<and> timeoutFunction opts \<noteq> Undefined"
  by (cases "timeoutFunction opts = Undefined")
     (simp_all add: with_defaults_def default_to_def simpleTimeout_value_def)

lemma default_kept: "v \<noteq> Undefined \<Longrightarrow> default_to d v = v"
  by (simp add: default_to_def)

lemma typeof_number: "typeof v = ''number'' \<longleftrightarrow> (\<exists>n. v = Number n)"
  by (cases v) simp_all

lemma validate_not_number:
  "typeof (timeoutMs opts) \<noteq> ''number'' \<Longrightarrow> \<exists>e. validate E method blob opts = Throw e"
  by (simp add: validate_def split: outcome.splits)

lemma clearTimeout_twice: "clearTimeout i (clearTimeout i s) = clearTimeout i s"
  by (simp add: clearTimeout_def)

lemma clearTimeout_fired: "clearTimeout i (snd (fire i s)) = snd (fire i s)"
  by (simp add: clearTimeout_def fire_def)

lemma clearTimeout_again: "(clearTimeout i ^^ Suc n) s = clearTimeout i s"
proof (induction n)
  case 0
  show ?case by simp
next
  case (Suc n)
  have "(clearTimeout i ^^ Suc (Suc n)) s = clearTimeout i ((clearTimeout i ^^ Suc n) s)"
    by simp
  also have "\<dots> = clearTimeout i (clearTimeout i s)"
    by (simp only: Suc.IH)
  finally show ?case by (simp only: clearTimeout_twice)
qed

section \<open>C1: what follows the settlement\<close>

text \<open>
  C1 on the code as it is. The call \<open>reliableFileReader('readAsText', blob,
  { timeoutMs: 10000 })\<close> sets the timer on line 61 and throws on line 70, so the promise
  comes back rejected with the \<open>ReferenceError\<close>. The timer is still set: when it fires,
  after the settlement, the callback sets the flag, calls \<open>reject\<close> once more and ends
  with the \<open>ReferenceError\<close> of line 66, which goes to the host.
\<close>

theorem timer_fires_after_rejection:
  "reliableFileReader browser ''readAsText'' Blob (Options ten_seconds) = Normal shipped_request \<and>
   promise shipped_request = Rejected not_defined \<and>
   step browser ''readAsText'' (Num ''10000'') Timeout shipped_request =
     (Throw not_defined,
      shipped_request\<lparr>hasTimedOut := True,
                      trace := trace shipped_request
                        @ [Call_reject (Error ''FileReader readAsText timed out after 10000ms'')]\<rparr>) \<and>
   promise (run browser ''readAsText'' (Num ''10000'') [Timeout] shipped_request) =
     Rejected not_defined"
  by (simp add: shipped_request_returned)
     (simp add: shipped_request_def handler_defs step_def browser_def timeout_message_def)

section \<open>C2: invalid input\<close>

text \<open>
  Against C2 as stated: with \<open>undefined\<close> for the blob the call does not throw. The
  check runs inside the function given to \<open>new Promise\<close>, so the call returns a promise,
  rejected with the error.
\<close>

theorem invalid_blob_not_thrown_counterexample:
  "reliableFileReader browser ''readAsText'' Undefined (Options no_options) =
     Normal \<lparr>hasTimedOut = False,
             promise = Rejected (Error ''Invalid blob passed to FileReader: undefined''),
             trace = []\<rparr>"
  by (simp add: call_defs)

text \<open>
  C2, amended. For every invalid input (a blob that is no \<open>Blob\<close>, a method for which
  \<open>FileReader.prototype[method]\<close> is no function, a \<open>timeoutMs\<close> given and not a number,
  an \<open>onFinishAfterTimeout\<close> or a \<open>timeoutFunction\<close> given and not a function) and
  options other than \<open>null\<close>, the call does not throw: it returns a promise already
  rejected by the first check that fails, and no timer, handler or read has been
  started. The reason is the error \<open>Invalid ... passed to FileReader: ...\<close> that names
  the argument and its value, unless the check itself throws (an accessor of the
  prototype, a value that cannot be made a string); then it is what the check threw.
  With \<open>null\<close> for the options the call throws before any check.
\<close>

theorem invalid_input_rejects_promise:
  assumes "\<not> instanceof_Blob blob
         \<or> \<not> (\<exists>f. FileReader_prototype E method = Normal f \<and> typeof f = ''function'')
         \<or> (timeoutMs opts \<noteq> Undefined \<and> typeof (timeoutMs opts) \<noteq> ''number'')
         \<or> (onFinishAfterTimeout opts \<noteq> Undefined
             \<and> typeof (onFinishAfterTimeout opts) \<noteq> ''function'')
         \<or> (timeoutFunction opts \<noteq> Undefined \<and> typeof (timeoutFunction opts) \<noteq> ''function'')"
  shows "reliableFileReader E method blob (Options opts) =
           rejected_at_once
             (if \<not> instanceof_Blob blob then invalid ''blob'' blob
              else case FileReader_prototype E method of
                Throw e \<Rightarrow> e
              | Normal f \<Rightarrow>
                  if typeof f \<noteq> ''function'' then invalid ''method'' (Str method)
                  else if typeof (timeoutMs (with_defaults opts)) \<noteq> ''number'' then
                    invalid ''timeoutMs'' (timeoutMs opts)
                  else if typeof (onFinishAfterTimeout (with_defaults opts)) \<noteq> ''function'' then
                    invalid ''onFinishAfterTimeout'' (onFinishAfterTimeout opts)
                  else invalid ''timeoutFunction'' (timeoutFunction opts)) \<and>
         (ToString v = Normal s \<longrightarrow>
            invalid what v = Error (''Invalid '' @ what @ '' passed to FileReader: '' @ s)) \<and>
         reliableFileReader E method blob Null_options = Throw destructure_null_error"
proof -
  have n: "reliableFileReader E method blob Null_options = Throw destructure_null_error"
    by (simp add: reliableFileReader_def)
  let ?d = "with_defaults opts"
  have i: "ToString v = Normal s \<longrightarrow>
      invalid what v = Error (''Invalid '' @ what @ '' passed to FileReader: '' @ s)"
    by (simp add: invalid_def)
  consider (blob) "\<not> instanceof_Blob blob"
    | (accessor) e where "instanceof_Blob blob" "FileReader_prototype E method = Throw e"
    | (name) f where "instanceof_Blob blob" "FileReader_prototype E method = Normal f"
        "typeof f \<noteq> ''function''"
    | (ms) f where "instanceof_Blob blob" "FileReader_prototype E method = Normal f"
        "typeof f = ''function''" "typeof (timeoutMs ?d) \<noteq> ''number''"
    | (late) f where "instanceof_Blob blob" "FileReader_prototype E method = Normal f"
        "typeof f = ''function''" "typeof (timeoutMs ?d) = ''number''"
        "typeof (onFinishAfterTimeout ?d) \<noteq> ''function''"
    | (timer) f where "instanceof_Blob blob" "FileReader_prototype E method = Normal f"
        "typeof f = ''function''" "typeof (timeoutMs ?d) = ''number''"
        "typeof (onFinishAfterTimeout ?d) = ''function''"
        "typeof (timeoutFunction ?d) \<noteq> ''function''"
    | (valid) f where "instanceof_Blob blob" "FileReader_prototype E method = Normal f"
        "typeof f = ''function''" "typeof (timeoutMs ?d) = ''number''"
        "typeof (onFinishAfterTimeout ?d) = ''function''"
        "typeof (timeoutFunction ?d) = ''function''"
    by (cases "FileReader_prototype E method") blast+
  then have "reliableFileReader E method blob (Options opts) =
           rejected_at_once
             (if \<not> instanceof_Blob blob then invalid ''blob'' blob
              else case FileReader_prototype E method of
                Throw e \<Rightarrow> e
              | Normal f \<Rightarrow>
                  if typeof f \<noteq> ''function'' then invalid ''method'' (Str method)
                  else if typeof (timeoutMs (with_defaults opts)) \<noteq> ''number'' then
                    invalid ''timeoutMs'' (timeoutMs opts)
                  else if typeof (onFinishAfterTimeout (with_defaults opts)) \<noteq> ''function'' then
                    invalid ''onFinishAfterTimeout'' (onFinishAfterTimeout opts)
                  else invalid ''timeoutFunction'' (timeoutFunction opts))"
  proof cases
    case blob
    then have "validate E method blob ?d = Throw (invalid ''blob'' blob)"
      by (simp add: validate_def)
    with blob show ?thesis by (simp add: validate_thrown_rejects)
  next
    case accessor
    then have "validate E method blob ?d = Throw e"
      by (simp add: validate_def)
    with accessor show ?thesis by (simp add: validate_thrown_rejects)
  next
    case name
    then have "validate E method blob ?d = Throw (invalid ''method'' (Str method))"
      by (simp add: validate_def)
    with name show ?thesis by (simp add: validate_thrown_rejects)
  next
    case ms
    then have "validate E method blob ?d = Throw (invalid ''timeoutMs'' (timeoutMs opts))"
      using typeof_timeoutMs_default [of opts] by (simp add: validate_def)
    with ms show ?thesis by (simp add: validate_thrown_rejects)
  next
    case late
    then have "validate E method blob ?d =
        Throw (invalid ''onFinishAfterTimeout'' (onFinishAfterTimeout opts))"
      using typeof_onFinishAfterTimeout_default [of opts] by (simp add: validate_def)
    with late show ?thesis by (simp add: validate_thrown_rejects)
  next
    case timer
    then have "validate E method blob ?d =
        Throw (invalid ''timeoutFunction'' (timeoutFunction opts))"
      using typeof_timeoutFunction_default [of opts] by (simp add: validate_def)
    with timer show ?thesis by (simp add: validate_thrown_rejects)
  next
    case valid
    have "timeoutMs opts \<noteq> Undefined \<Longrightarrow> timeoutMs ?d = timeoutMs opts"
      "onFinishAfterTimeout opts \<noteq> Undefined \<Longrightarrow>
         onFinishAfterTimeout ?d = onFinishAfterTimeout opts"
      "timeoutFunction opts \<noteq> Undefined \<Longrightarrow> timeoutFunction ?d = timeoutFunction opts"
      by (simp_all add: with_defaults_def default_kept)
    with valid assms have False by metis
    then show ?thesis ..
  qed
  with i n show ?thesis by simp
qed

text \<open>
  C2 on a \<open>timeoutMs\<close> that is a string, on the method names \<open>readAsJSON\<close> and \<open>result\<close>,
  and on a symbol for the blob.
\<close>

theorem invalid_input_rejects_promise_witness:
  "reliableFileReader browser ''readAsText'' Blob (Options (no_options\<lparr>timeoutMs := Str ''10000''\<rparr>)) =
     rejected_at_once (Error ''Invalid timeoutMs passed to FileReader: 10000'') \<and>
   reliableFileReader browser ''readAsJSON'' Blob (Options no_options) =
     rejected_at_once (Error ''Invalid method passed to FileReader: readAsJSON'') \<and>
   reliableFileReader browser ''result'' Blob (Options no_options) =
     rejected_at_once illegal_invocation \<and>
   reliableFileReader browser ''readAsText'' (Symbol ''blob'') (Options no_options) =
     rejected_at_once symbol_to_string_error"
proof -
  let ?opts = "no_options\<lparr>timeoutMs := Str ''10000''\<rparr>"
  have h: "timeoutMs ?opts \<noteq> Undefined \<and> typeof (timeoutMs ?opts) \<noteq> ''number''"
    by simp
  have d: "timeoutMs (with_defaults ?opts) = Str ''10000''"
    by (simp add: with_defaults_def default_to_def)
  have b: "FileReader_prototype browser ''readAsText'' =
             Normal (Function ''function readAsText() { [native code] }'')"
    "FileReader_prototype browser ''readAsJSON'' = Normal Undefined"
    "FileReader_prototype browser ''result'' = Throw illegal_invocation"
    by (simp_all add: browser_def browser_prototype_def)
  have s: "\<not> instanceof_Blob (Symbol ''blob'')"
    by simp
  from invalid_input_rejects_promise [of Blob browser "''readAsText''" ?opts]
    invalid_input_rejects_promise [of Blob browser "''readAsJSON''" no_options]
    invalid_input_rejects_promise [of Blob browser "''result''" no_options]
    invalid_input_rejects_promise [of "Symbol ''blob''" browser "''readAsText''" no_options]
    h d b s
  show ?thesis by (simp add: invalid_def)
qed

section \<open>C3: the timeout\<close>

text \<open>
  Where \<open>fileReader\<close> is bound, the callback of lines 61 to 67 does what C3 says: it sets
  \<open>hasTimedOut\<close>, rejects a pending promise with an error whose message contains the
  method name and the rendering of \<open>timeoutMs\<close>, and then calls \<open>abort\<close>.
\<close>

lemma timeout_where_fileReader_is_bound:
  assumes "fileReader E = Normal r" and "promise st = Pending"
  shows "hasTimedOut (snd (timeout_callback E method ms st)) \<and>
         promise (snd (timeout_callback E method ms st)) =
           Rejected (Error (timeout_message method ms)) \<and>
         sublist method (timeout_message method ms) \<and>
         sublist (num_to_string ms) (timeout_message method ms) \<and>
         trace (snd (timeout_callback E method ms st)) =
           trace st @ [Call_reject (Error (timeout_message method ms)), Call_abort]"
proof -
  have "timeout_message method ms =
          ''FileReader '' @ method @ ('' timed out after '' @ num_to_string ms @ ''ms'')"
    by (simp add: timeout_message_def)
  then have m: "sublist method (timeout_message method ms)"
    by (simp only: sublist_appendI)
  have "timeout_message method ms =
          (''FileReader '' @ method @ '' timed out after '') @ num_to_string ms @ ''ms''"
    by (simp add: timeout_message_def)
  then have t: "sublist (num_to_string ms) (timeout_message method ms)"
    by (simp only: sublist_appendI)
  from assms m t show ?thesis
    by (simp add: handler_defs)
qed

text \<open>
  C3 on the code as it is. The name is bound nowhere, so a valid request comes back
  rejected with the \<open>ReferenceError\<close> of line 70. When no completion arrives and the
  timer fires, the flag is set, the \<open>reject\<close> of line 63 changes nothing, and line 66
  throws before \<open>abort\<close> is called: the promise is not rejected with the timeout
  error, and no abort is attempted.
\<close>

theorem timeout_on_the_code_as_it_is:
  "reliableFileReader browser ''readAsText'' Blob (Options ten_seconds) = Normal shipped_request \<and>
   timeout_callback browser ''readAsText'' (Num ''10000'') shipped_request =
     (Throw not_defined,
      \<lparr>hasTimedOut = True, promise = Rejected not_defined,
       trace = [Call_timeoutFunction simpleTimeout_value (Number (Num ''10000'')),
                Call_reject (Error ''FileReader readAsText timed out after 10000ms'')]\<rparr>)"
  by (simp add: shipped_request_returned)
     (simp add: shipped_request_def handler_defs browser_def timeout_message_def)

section \<open>C4: a completion before the timeout\<close>

text \<open>
  C4. When a completion reaches a request that is pending and has not timed out, the
  cancellation function is called and then the promise settles: \<open>onload\<close> resolves it
  with the reader's result, and \<open>onerror\<close> rejects it with the very error it was given.
  The branch of line 87 is taken on the truth of the error; what a reader hands to
  \<open>onerror\<close> is an event, an object, and every object is truthy.
\<close>

theorem completion_before_timeout_settles:
  assumes "hasTimedOut st = False" and "promise st = Pending"
  shows "snd (onload E r st) =
           st\<lparr>promise := Fulfilled r,
              trace := trace st @ [Call_stopWaitingForTimeout, Call_resolve r]\<rparr> \<and>
         (truthy e \<longrightarrow>
            snd (onerror E e st) =
              st\<lparr>promise := Rejected e,
                 trace := trace st @ [Call_stopWaitingForTimeout, Call_reject e]\<rparr>) \<and>
         truthy (Object b c)"
  using assms by (simp add: handler_defs)

text \<open>
C4 on the ten-second request: a result, and an error event.
\<close>

theorem completion_before_timeout_settles_witness:
  "promise (snd (onload page_with_reader (Str ''abc'') example_request)) = Fulfilled (Str ''abc'') \<and>
   promise (snd (onerror page_with_reader progress_event example_request)) =
     Rejected progress_event"
proof -
  have h: "hasTimedOut example_request = False" "promise example_request = Pending"
    by (simp_all add: example_request_def)
  have t: "truthy progress_event"
    by (simp add: progress_event_def)
  from completion_before_timeout_settles
         [OF h, of page_with_reader "Str ''abc''" progress_event] t
  show ?thesis by simp
qed

section \<open>C5: completions after the timeout\<close>

text \<open>
  Against C5 as stated: on the page with the reader the timeout fires, and then the
  reader fires \<open>onload\<close> and \<open>onerror\<close> both. \<open>onFinishAfterTimeout\<close> is called twice in
  that one request.
\<close>

theorem dual_fire_after_timeout_counterexample:
  "reliableFileReader page_with_reader ''readAsText'' Blob (Options ten_seconds) =
     Normal example_request \<and>
   late_finishes (run page_with_reader ''readAsText'' (Num ''10000'')
                    [Timeout, Load (Str ''abc''), Failure progress_event] example_request) =
     [\<lparr>result = Str ''abc'', error = Undefined\<rparr>,
      \<lparr>result = Undefined, error = progress_event\<rparr>]"
  by (simp add: example_request_returned)
     (simp add: example_request_def handler_defs step_def page_with_reader_def browser_def
        late_finishes_def)

text \<open>
  C5, amended. Once the timeout has fired, each completion that reaches the request
  calls \<open>onFinishAfterTimeout\<close> once, with the result or the error that notification
  carries (the other field \<open>undefined\<close>), and makes no other call. Over the rest of the
  request the callback is therefore called once for every late completion, in their
  order, and the cancellation function is not called; the promise keeps its state.
\<close>

theorem late_finish_after_timeout:
  assumes "hasTimedOut st"
  shows "snd (onload E r st) =
           st\<lparr>trace := trace st @ [Call_onFinishAfterTimeout \<lparr>result = r, error = Undefined\<rparr>]\<rparr> \<and>
         snd (onerror E e st) =
           st\<lparr>trace := trace st @ [Call_onFinishAfterTimeout \<lparr>result = Undefined, error = e\<rparr>]\<rparr> \<and>
         promise (snd (onload E r st)) = promise st \<and>
         promise (snd (onerror E e st)) = promise st \<and>
         cancellations (snd (onload E r st)) = cancellations st \<and>
         cancellations (snd (onerror E e st)) = cancellations st \<and>
         late_finishes (run E m n sigs st) =
           late_finishes st @ concat (map notification (filter (reaches st) sigs)) \<and>
         cancellations (run E m n sigs st) = cancellations st \<and>
         (promise st \<noteq> Pending \<longrightarrow> promise (run E m n sigs st) = promise st)"
  using assms late_finishes_run [of st E m n sigs] cancellations_run [of E m n sigs st]
    promise_run_settled [of st E m n sigs]
  by (simp add: handler_defs cancellations_def)

text \<open>
C5 on the ten-second request: the timeout, then \<open>onload\<close>.
\<close>

theorem late_finish_after_timeout_witness:
  "late_finishes (run page_with_reader ''readAsText'' (Num ''10000'') [Load (Str ''abc'')]
                    (snd (timeout_callback page_with_reader ''readAsText'' (Num ''10000'')
                            example_request))) =
     [\<lparr>result = Str ''abc'', error = Undefined\<rparr>] \<and>
   trace (snd (onload page_with_reader (Str ''abc'')
                 (snd (timeout_callback page_with_reader ''readAsText'' (Num ''10000'')
                         example_request)))) =
     trace example_request
     @ [Call_reject (Error ''FileReader readAsText timed out after 10000ms''), Call_abort,
        Call_onFinishAfterTimeout \<lparr>result = Str ''abc'', error = Undefined\<rparr>]"
proof -
  let ?st = "snd (timeout_callback page_with_reader ''readAsText'' (Num ''10000'')
                    example_request)"
  have h: "hasTimedOut ?st"
    by (simp add: handler_defs page_with_reader_def)
  have t: "trace ?st = trace example_request
             @ [Call_reject (Error ''FileReader readAsText timed out after 10000ms''), Call_abort]"
    by (simp add: handler_defs page_with_reader_def example_timeout_message)
  have l: "late_finishes ?st = []" "reaches ?st (Load (Str ''abc''))"
    by (simp_all add: handler_defs page_with_reader_def late_finishes_def example_request_def)
  from late_finish_after_timeout
         [OF h, of page_with_reader "Str ''abc''" Undefined "''readAsText''" "Num ''10000''"
            "[Load (Str ''abc'')]"] t l
  show ?thesis by simp
qed

section \<open>C6: how often the cancellation function is called\<close>

text \<open>
  Against C6 as stated: on the page with the reader, the reader fires \<open>onload\<close> and then
  \<open>onerror\<close> before the timeout, and the cancellation function is called twice.
\<close>

theorem dual_fire_cancels_twice_counterexample:
  "reliableFileReader page_with_reader ''readAsText'' Blob (Options ten_seconds) =
     Normal example_request \<and>
   cancellations (run page_with_reader ''readAsText'' (Num ''10000'')
     [Load (Str ''abc''), Failure progress_event] example_request) = 2"
  by (simp add: example_request_returned)
     (simp add: example_request_def handler_defs step_def cancellations_def progress_event_def)

text \<open>
  C6, amended. Over any sequence of signals the cancellation function is called once
  for each completion that reaches the request before the first timeout, and never
  after the timeout has fired.
\<close>

theorem cancellations_count:
  "cancellations (run E m n sigs st) =
     cancellations st +
     (if hasTimedOut st then 0
      else length (takeWhile (\<lambda>s. s \<noteq> Timeout) (filter (reaches st) sigs)))"
  by (rule cancellations_run)

text \<open>
  C6 on the ten-second request: \<open>onload\<close>, the timeout, then \<open>onerror\<close>; and on the
  request of the browser as it is, which no completion reaches.
\<close>

theorem cancellations_count_witness:
  "cancellations (run page_with_reader ''readAsText'' (Num ''10000'')
     [Load (Str ''abc''), Timeout, Failure progress_event] example_request) = 1 \<and>
   cancellations (run browser ''readAsText'' (Num ''10000'')
     [Load (Str ''abc''), Failure progress_event, Timeout] shipped_request) = 0"
proof -
  have "hasTimedOut example_request = False" "cancellations example_request = 0"
    "hasTimedOut shipped_request = False" "cancellations shipped_request = 0"
    "reaches example_request (Load (Str ''abc''))" "reaches example_request Timeout"
    "reaches example_request (Failure progress_event)"
    "\<not> reaches shipped_request (Load (Str ''abc''))"
    "\<not> reaches shipped_request (Failure progress_event)" "reaches shipped_request Timeout"
    by (simp_all add: example_request_def shipped_request_def cancellations_def)
  with cancellations_count [of page_with_reader "''readAsText''" "Num ''10000''"
      "[Load (Str ''abc''), Timeout, Failure progress_event]" example_request]
    cancellations_count [of browser "''readAsText''" "Num ''10000''"
      "[Load (Str ''abc''), Failure progress_event, Timeout]" shipped_request]
  show ?thesis by simp
qed

section \<open>C7: an abort that fails\<close>

text \<open>
  Against C7 as stated: when \<open>abort()\<close> throws, the timeout callback ends with that
  exception; nothing in lines 61 to 67 catches it. So it is with the \<open>ReferenceError\<close>
  of the code as it is.
\<close>

theorem abort_throw_not_swallowed_counterexample:
  "fst (timeout_callback failing_abort ''readAsText'' (Num ''10000'') example_request)
     = Throw (Error ''abort failed'') \<and>
   fst (timeout_callback browser ''readAsText'' (Num ''10000'') shipped_request)
     = Throw not_defined"
  by (simp add: handler_defs failing_abort_def page_with_reader_def browser_def)

text \<open>
  C7, amended. When the abort of line 66 throws, the timeout callback passes the
  exception on to whoever called it, and the rejection it made before stands: the
  promise is rejected with the timeout error and stays so whatever signals follow.
\<close>

theorem abort_failure_propagates:
  assumes "abort_attempt E = Throw e" and "promise st = Pending"
  shows "fst (timeout_callback E m t st) = Throw e \<and>
         promise (snd (timeout_callback E m t st)) = Rejected (Error (timeout_message m t)) \<and>
         promise (run E m t sigs (snd (timeout_callback E m t st))) =
           Rejected (Error (timeout_message m t))"
proof -
  have a: "fst (timeout_callback E m t st) = Throw e"
    using assms(1) by (simp add: timeout_callback_def Let_def)
  have b: "promise (snd (timeout_callback E m t st)) = Rejected (Error (timeout_message m t))"
    using assms(2) by (simp add: timeout_callback_def reject_def Let_def split: outcome.splits)
  then have "promise (snd (timeout_callback E m t st)) \<noteq> Pending"
    by simp
  then have "promise (run E m t sigs (snd (timeout_callback E m t st))) =
               promise (snd (timeout_callback E m t st))"
    by (rule promise_run_settled)
  with a b show ?thesis by simp
qed

text \<open>
C7 on the ten-second request with the reader whose \<open>abort()\<close> throws.
\<close>

theorem abort_failure_propagates_witness:
  "promise (run failing_abort ''readAsText'' (Num ''10000'') [Load (Str ''abc'')]
              (snd (timeout_callback failing_abort ''readAsText'' (Num ''10000'')
                      example_request))) =
     Rejected (Error ''FileReader readAsText timed out after 10000ms'')"
proof -
  have h: "abort_attempt failing_abort = Throw (Error ''abort failed'')"
    "promise example_request = Pending"
    by (simp_all add: abort_attempt_def failing_abort_def page_with_reader_def
        example_request_def)
  from abort_failure_propagates
         [OF h, of "''readAsText''" "Num ''10000''" "[Load (Str ''abc'')]"]
  show ?thesis by (simp only: example_timeout_message)
qed

section \<open>C8: what validation asks of \<open>timeoutMs\<close>\<close>

text \<open>
  Against C8 as stated: \<open>timeoutMs: -5\<close> passes the five checks, and the timer is set
  with it.
\<close>

theorem negative_timeoutMs_passes_counterexample:
  "validate browser ''readAsText'' Blob
     (with_defaults (no_options\<lparr>timeoutMs := Number (Num ''-5'')\<rparr>)) = Normal Undefined \<and>
   reliableFileReader browser ''readAsText'' Blob
     (Options (no_options\<lparr>timeoutMs := Number (Num ''-5'')\<rparr>)) =
     Normal \<lparr>hasTimedOut = False, promise = Rejected not_defined,
             trace = [Call_timeoutFunction simpleTimeout_value (Number (Num ''-5''))]\<rparr>"
  by (simp add: call_defs example_defs)

text \<open>
  C8, amended. Every request that passes the checks of lines 30 to 57 has a
  \<open>timeoutMs\<close> of type number: validation rejects a \<open>timeoutMs\<close> that is not a number,
  and asks nothing of its sign.
\<close>

theorem validated_timeoutMs_is_number:
  assumes "validate E method blob (with_defaults opts) = Normal v"
  shows "typeof (timeoutMs (with_defaults opts)) = ''number'' \<and>
         (\<exists>n. timeoutMs (with_defaults opts) = Number n)"
proof -
  have "typeof (timeoutMs (with_defaults opts)) = ''number''"
  proof (rule ccontr)
    assume "typeof (timeoutMs (with_defaults opts)) \<noteq> ''number''"
    then obtain e where "validate E method blob (with_defaults opts) = Throw e"
      using validate_not_number by blast
    with assms show False by simp
  qed
  then show ?thesis by (simp add: typeof_number)
qed

text \<open>
C8 on the ten-second request.
\<close>

theorem validated_timeoutMs_is_number_witness:
  "validate browser ''readAsText'' Blob (with_defaults ten_seconds) = Normal Undefined \<and>
   typeof (timeoutMs (with_defaults ten_seconds)) = ''number''"
proof -
  have p: "validate browser ''readAsText'' Blob (with_defaults ten_seconds) = Normal Undefined"
    by (simp add: call_defs example_defs)
  from validated_timeoutMs_is_number [OF p] p show ?thesis
    by (simp only: simp_thms)
qed

section \<open>C9: the cancellation function of \<open>simpleTimeout\<close>\<close>

text \<open>
  C9. \<open>simpleTimeout\<close> sets one timer and returns the function that clears it. Calling
  that function after the timer has fired changes nothing, and calling it again, any
  number of times, gives what one call gives.
\<close>

theorem stopWaiting_idempotent:
  assumes "simpleTimeout callback ms s0 = (cancel, s1)"
  shows "waiting s1 = waiting s0 @ [(next_id s0, callback, ms)] \<and>
         cancel (snd (fire (next_id s0) s)) = snd (fire (next_id s0) s) \<and>
         cancel (cancel s) = cancel s \<and>
         (cancel ^^ Suc n) s = cancel s"
proof -
  from assms have c: "cancel = clearTimeout (next_id s0)"
    and s: "s1 = s0\<lparr>next_id := Suc (next_id s0),
                     waiting := waiting s0 @ [(next_id s0, callback, ms)]\<rparr>"
    by (auto simp: simpleTimeout_def setTimeout_def stopWaiting_def fun_eq_iff)
  show ?thesis
    unfolding c using s
    by (simp only: clearTimeout_twice clearTimeout_fired clearTimeout_again) simp
qed

text \<open>
C9 on a timer set on an idle host: it fires, and then it is cancelled.
\<close>

theorem stopWaiting_idempotent_witness:
  "fst (fire 1 (snd (simpleTimeout ''callback'' (Number (Num ''10000'')) idle))) =
     Some ''callback'' \<and>
   fst (simpleTimeout ''callback'' (Number (Num ''10000'')) idle)
     (snd (fire 1 (snd (simpleTimeout ''callback'' (Number (Num ''10000'')) idle)))) =
   \<lparr>next_id = 2, waiting = []\<rparr>"
proof -
  let ?r = "simpleTimeout ''callback'' (Number (Num ''10000'')) idle"
  have h: "?r = (fst ?r, snd ?r)"
    by simp
  have i: "next_id idle = 1"
    by (simp add: idle_def)
  have f: "fire 1 (snd ?r) = (Some ''callback'', \<lparr>next_id = 2, waiting = []\<rparr>)"
    by (simp add: simpleTimeout_def setTimeout_def fire_def idle_def)
  from stopWaiting_idempotent [OF h, of "snd ?r"] i f show ?thesis
    by simp
qed

section \<open>C10: a failure notification with a falsy error\<close>

text \<open>
  C10. Before the timeout, on a pending request, a notification whose error is falsy
  takes the branch of line 90: the promise is resolved with the result field, which
  is \<open>undefined\<close> when the notification came through \<open>onerror\<close>. \<open>undefined\<close>, \<open>null\<close>,
  \<open>0\<close> and the empty string are falsy.
\<close>

theorem falsy_error_resolves:
  assumes "hasTimedOut st = False" and "promise st = Pending" and "\<not> truthy e"
  shows "snd (onerror E e st) =
           st\<lparr>promise := Fulfilled Undefined,
              trace := trace st @ [Call_stopWaitingForTimeout, Call_resolve Undefined]\<rparr> \<and>
         snd (onComplete E \<lparr>result = r, error = e\<rparr> st) =
           st\<lparr>promise := Fulfilled r,
              trace := trace st @ [Call_stopWaitingForTimeout, Call_resolve r]\<rparr> \<and>
         \<not> truthy Undefined \<and> \<not> truthy Null \<and> \<not> truthy (Number (Num ''0'')) \<and>
         \<not> truthy (Str [])"
  using assms by (simp add: handler_defs)

text \<open>
C10 on the ten-second request: \<open>onerror(null)\<close>.
\<close>

theorem falsy_error_resolves_witness:
  "promise (snd (onerror page_with_reader Null example_request)) = Fulfilled Undefined"
proof -
  have h: "hasTimedOut example_request = False" "promise example_request = Pending"
    "\<not> truthy Null"
    by (simp_all add: example_request_def)
  from falsy_error_resolves [OF h, of page_with_reader] show ?thesis
    by simp
qed

end
